theory Spec2Isabelle
  imports Main
begin

section \<open>Platform values\<close>

text \<open>
  A JavaScript string is a \<open>string\<close> here: a list of code units, each below 256 and read
  as the Latin-1 code point of the same number. On that range \<open>toLowerCase\<close> and
  \<open>trim\<close> stay inside the range, so the model is closed under the operations the
  resolver uses. A value of type \<open>string | undefined\<close> is a \<open>string option\<close>.
\<close>

definition isWhiteSpace :: "char \<Rightarrow> bool" where
  \<comment> \<open>the WhiteSpace and LineTerminator code points below 256: TAB, LF, VT, FF, CR, SP, NBSP\<close>
  "isWhiteSpace c = ((of_char c :: nat) \<in> {9, 10, 11, 12, 13, 32, 160})"

definition trim :: "string \<Rightarrow> string" where
  "trim s = rev (dropWhile isWhiteSpace (rev (dropWhile isWhiteSpace s)))"

definition toLowerChar :: "char \<Rightarrow> char" where
  \<comment> \<open>A-Z, and the Latin-1 capitals U+00C0..U+00DE without the multiplication sign U+00D7\<close>
  "toLowerChar c =
     (let n = (of_char c :: nat)
      in if (65 \<le> n \<and> n \<le> 90) \<or> (192 \<le> n \<and> n \<le> 214) \<or> (216 \<le> n \<and> n \<le> 222)
         then char_of (n + 32) else c)"

definition toLowerCase :: "string \<Rightarrow> string" where
  "toLowerCase s = map toLowerChar s"

definition startsWith :: "string \<Rightarrow> string \<Rightarrow> bool" where
  "startsWith s p = (take (length p) s = p)"

definition endsWith :: "string \<Rightarrow> string \<Rightarrow> bool" where
  "endsWith s p = (length p \<le> length s \<and> drop (length s - length p) s = p)"

definition substring1 :: "string \<Rightarrow> string" where
  \<comment> \<open>\<open>s.substring(1)\<close>\<close>
  "substring1 s = drop 1 s"

fun split :: "char \<Rightarrow> string \<Rightarrow> string list" where
  \<comment> \<open>\<open>s.split(sep)\<close> for a one-character separator: never the empty list\<close>
  "split sep [] = [[]]"
| "split sep (c # cs) =
     (if c = sep then [] # split sep cs
      else (case split sep cs of
              [] \<Rightarrow> [[c]]
            | w # ws \<Rightarrow> (c # w) # ws))"

definition truthy :: "string option \<Rightarrow> bool" where
  \<comment> \<open>\<open>undefined\<close> and the empty string are falsy\<close>
  "truthy v = (case v of None \<Rightarrow> False | Some s \<Rightarrow> s \<noteq> [])"

definition js_or :: "string option \<Rightarrow> string option \<Rightarrow> string option" where
  \<comment> \<open>\<open>a || b\<close>: the left operand when it is truthy, the right operand otherwise\<close>
  "js_or a b = (if truthy a then a else b)"

definition digit_char :: "nat \<Rightarrow> char" where
  \<comment> \<open>only ever applied to a number below ten\<close>
  "digit_char n = ''0123456789'' ! n"

function nat_to_string :: "nat \<Rightarrow> string" where
  "nat_to_string n =
     (if n < 10 then [digit_char n] else nat_to_string (n div 10) @ [digit_char (n mod 10)])"
  by pat_completeness auto
termination
  by (relation "measure (\<lambda>n. n)") auto

declare nat_to_string.simps [simp del]

definition number_to_string :: "int \<Rightarrow> string" where
  \<comment> \<open>how a template literal renders an integral number (magnitude below \<open>10^21\<close>)\<close>
  "number_to_string i = (if i < 0 then CHR ''-'' # nat_to_string (nat (- i)) else nat_to_string (nat i))"


section \<open>Data model\<close>

text \<open>
  \<open>process.env\<close> is a map from variable names to values. The whole of it is optional:
  \<open>None\<close> is an execution context without \<open>process\<close> or without \<open>process.env\<close>.
\<close>

type_synonym env = "string \<rightharpoonup> string"
type_synonym process = "env option"

text \<open>
  Modelled from the spec: the interface \<open>ProxyConfig\<close> of \<open>src/types.ts\<close>, which is not
  among the sources; the spec gives it as
  \<open>{host: string, port: number, protocol?: string, auth?: string}\<close>.
\<close>

record ProxyConfig =
  host :: string
  port :: int
  protocol :: "string option"
  auth :: "string option"

text \<open>
  The parameter \<open>proxyOption?: string | types.ProxyConfig | false\<close>, with the value
  \<open>null\<close> that \<open>resolveProxyUrl\<close> tests for.
\<close>

datatype proxyOption = Undefined | Null | PFalse | PString string | PObject ProxyConfig

text \<open>
  What the resolver reads of the object \<open>new URL(targetUrl)\<close>. The URL parser belongs to
  the platform, so the functions take it as a parameter: \<open>None\<close> is the string the
  constructor throws on.
\<close>

record url =
  url_protocol :: string
  url_hostname :: string

type_synonym url_parser = "string \<Rightarrow> url option"

datatype error = InvalidURL | InvalidProxyURL | CapabilityUnavailable


section \<open>The resolver\<close>

text \<open>
  A function that can throw returns a sum: \<open>Inl\<close> of what is thrown, \<open>Inr\<close> of what is
  returned, where \<open>Inr None\<close> is the result \<open>undefined\<close>.
\<close>

definition isNodeEnvironment :: "process \<Rightarrow> bool" where
  "isNodeEnvironment p = (case p of None \<Rightarrow> False | Some e \<Rightarrow> True)"

definition getEnvVar :: "process \<Rightarrow> string \<Rightarrow> string option" where
  "getEnvVar p name =
     (if \<not> isNodeEnvironment p then None
      else (case p of None \<Rightarrow> None | Some e \<Rightarrow> e name))"

fun matchPatterns :: "string \<Rightarrow> string list \<Rightarrow> bool" where
  \<comment> \<open>the \<open>for (const pattern of patterns)\<close> loop of \<open>shouldBypassProxy\<close>\<close>
  "matchPatterns normalizedHostname [] = False"
| "matchPatterns normalizedHostname (pattern # rest) =
     (if pattern = [] then matchPatterns normalizedHostname rest
      else
        (let normalizedPattern = toLowerCase pattern in
         if normalizedHostname = normalizedPattern then True
         else if (if startsWith normalizedPattern ''*''
                  then endsWith normalizedHostname (substring1 normalizedPattern)
                  else if startsWith normalizedPattern ''.''
                  then endsWith normalizedHostname normalizedPattern
                  else False) then True
         else if endsWith normalizedHostname (''.'' @ normalizedPattern) then True
         else matchPatterns normalizedHostname rest))"

definition shouldBypassProxy :: "process \<Rightarrow> string \<Rightarrow> bool" where
  "shouldBypassProxy p hostname =
     (let noProxy = js_or (getEnvVar p ''NO_PROXY'') (getEnvVar p ''no_proxy'') in
      if \<not> truthy noProxy then False
      else
        (case noProxy of
           None \<Rightarrow> False
         | Some s \<Rightarrow> matchPatterns (toLowerCase hostname) (map trim (split CHR '','' s))))"

definition getProxyFromEnvironment ::
  "url_parser \<Rightarrow> process \<Rightarrow> string \<Rightarrow> error + string option" where
  "getProxyFromEnvironment parse p targetUrl =
     (if \<not> isNodeEnvironment p then Inr None
      else
        (case parse targetUrl of
           None \<Rightarrow> Inl InvalidURL
         | Some u \<Rightarrow>
             (let proto = toLowerCase (url_protocol u) in
              if shouldBypassProxy p (url_hostname u) then Inr None
              else if proto = ''https:'' then
                Inr (js_or (js_or (js_or (getEnvVar p ''HTTPS_PROXY'') (getEnvVar p ''https_proxy''))
                                  (getEnvVar p ''HTTP_PROXY''))
                           (getEnvVar p ''http_proxy''))
              else if proto = ''http:'' then
                Inr (js_or (getEnvVar p ''HTTP_PROXY'') (getEnvVar p ''http_proxy''))
              else Inr None)))"

definition proxyConfigToUrl :: "ProxyConfig \<Rightarrow> string" where
  "proxyConfigToUrl config =
     (let proto = (case js_or (protocol config) (Some ''http'') of None \<Rightarrow> ''http'' | Some s \<Rightarrow> s);
          authPart = (if truthy (auth config) then (case auth config of None \<Rightarrow> [] | Some a \<Rightarrow> a @ ''@'') else [])
      in proto @ ''://'' @ authPart @ host config @ '':'' @ number_to_string (port config))"

definition resolveProxyUrl ::
  "url_parser \<Rightarrow> process \<Rightarrow> string \<Rightarrow> proxyOption \<Rightarrow> error + string option" where
  "resolveProxyUrl parse p targetUrl opt =
     (case opt of
        PFalse \<Rightarrow> Inr None
      | PString s \<Rightarrow> Inr (Some s)
      | PObject c \<Rightarrow> Inr (Some (proxyConfigToUrl c))
      | Undefined \<Rightarrow> getProxyFromEnvironment parse p targetUrl
      | Null \<Rightarrow> getProxyFromEnvironment parse p targetUrl)"


section \<open>The agent factory\<close>

text \<open>
  \<open>await import('undici')\<close> either rejects or gives the module, of which the factory
  uses the constructor \<open>ProxyAgent\<close>; the constructor either throws or gives an agent.
  Both belong to the platform and are parameters. The console is the list of the
  warnings written so far, each with the value that was caught. The promise that
  \<open>createProxyAgent\<close> returns is modelled by how it settles: \<open>Inr\<close> of the value it is
  fulfilled with, \<open>Inl\<close> of the value it is rejected with.
\<close>

type_synonym 'a constructor = "string \<Rightarrow> error + 'a"
type_synonym console = "(string \<times> error) list"

definition tryBody :: "(error + 'a constructor) \<Rightarrow> string \<Rightarrow> error + 'a" where
  \<comment> \<open>the two statements inside \<open>try { ... }\<close>\<close>
  "tryBody imported proxyUrl =
     (case imported of
        Inl e \<Rightarrow> Inl e
      | Inr ProxyAgent \<Rightarrow> ProxyAgent proxyUrl)"

definition createProxyAgent ::
  "process \<Rightarrow> (error + 'a constructor) \<Rightarrow> string \<Rightarrow> console \<Rightarrow> (error + 'a option) \<times> console" where
  "createProxyAgent p imported proxyUrl out =
     (if \<not> isNodeEnvironment p then (Inr None, out)
      else
        (case tryBody imported proxyUrl of
           Inr agent \<Rightarrow> (Inr (Some agent), out)
         | Inl caught \<Rightarrow>
             (Inr None, out @ [(''undici not available. Proxy support is disabled.'', caught)])))"



section \<open>The specification's wording, and sample platform values\<close>


text \<open>
  The format \<open>protocol://[auth@]host:port\<close> read by the letter: the default protocol
  exactly when the field is omitted, the credentials exactly when the field is present.
\<close>

definition toURL_spec :: "ProxyConfig \<Rightarrow> string" where
  "toURL_spec config =
     (case protocol config of None \<Rightarrow> ''http'' | Some s \<Rightarrow> s) @ ''://''
     @ (case auth config of None \<Rightarrow> [] | Some a \<Rightarrow> a @ ''@'')
     @ host config @ '':'' @ number_to_string (port config)"

text \<open>
  A finite part of the platform's URL parser, for evaluating the resolver at concrete
  targets: what \<open>new URL\<close> gives on three strings. Every other string, among them
  \<open>not a url\<close>, which the platform rejects as well, is taken as unparseable.
\<close>

definition sampleParse :: url_parser where
  "sampleParse = map_of
     [(''https://api.example.com'', \<lparr>url_protocol = ''https:'', url_hostname = ''api.example.com''\<rparr>),
      (''http://api.example.com'', \<lparr>url_protocol = ''http:'', url_hostname = ''api.example.com''\<rparr>),
      (''ftp://api.example.com'', \<lparr>url_protocol = ''ftp:'', url_hostname = ''api.example.com''\<rparr>)]"

text \<open>
  A stand-in for the constructor \<open>ProxyAgent\<close>, for evaluating the factory: the agent
  is named by its proxy URL, and a string without an \<open>http\<close> or \<open>https\<close> scheme is
  rejected.
\<close>

definition sampleProxyAgent :: "string constructor" where
  "sampleProxyAgent proxyUrl =
     (if startsWith proxyUrl ''http://'' \<or> startsWith proxyUrl ''https://''
      then Inr proxyUrl else Inl InvalidProxyURL)"


section \<open>Facts about the string operations\<close>

lemma endsWith_append: "endsWith (pre @ suf) suf"
  by (simp add: endsWith_def)

lemma endsWith_iff: "endsWith s suf \<longleftrightarrow> (\<exists>pre. s = pre @ suf)"
proof
  assume "endsWith s suf"
  then have "s = take (length s - length suf) s @ suf"
    by (metis append_take_drop_id endsWith_def)
  then show "\<exists>pre. s = pre @ suf" ..
next
  assume "\<exists>pre. s = pre @ suf"
  then show "endsWith s suf" by (auto simp: endsWith_append)
qed

lemma endsWith_toLowerCase:
  "endsWith s suf \<Longrightarrow> endsWith (toLowerCase s) (toLowerCase suf)"
  by (auto simp: endsWith_iff toLowerCase_def)

lemma startsWith_star: "startsWith (CHR ''*'' # s) ''*''"
  by (simp add: startsWith_def)

lemma toLowerChar_star: "toLowerChar CHR ''*'' = CHR ''*''"
  by (simp add: toLowerChar_def)

lemma toLowerCase_Cons: "toLowerCase (c # s) = toLowerChar c # toLowerCase s"
  by (simp add: toLowerCase_def)




section \<open>Facts about the bypass matcher\<close>

lemma matchPatterns_wildcard:
  "CHR ''*'' # suf \<in> set patterns \<Longrightarrow> endsWith h (toLowerCase suf) \<Longrightarrow> matchPatterns h patterns"
proof (induction patterns)
  case Nil
  then show ?case by simp
next
  case (Cons pattern rest)
  show ?case
  proof (cases "pattern = CHR ''*'' # suf")
    case True
    then show ?thesis using Cons.prems(2)
      by (simp add: toLowerCase_Cons toLowerChar_star startsWith_star substring1_def)
  next
    case False
    then have "matchPatterns h rest" using Cons by simp
    then show ?thesis by (simp add: Let_def)
  qed
qed

lemma shouldBypassProxy_wildcard:
  assumes "js_or (getEnvVar p ''NO_PROXY'') (getEnvVar p ''no_proxy'') = Some noProxy"
    and "CHR ''*'' # suf \<in> set (map trim (split CHR '','' noProxy))"
    and "endsWith (toLowerCase H) (toLowerCase suf)"
  shows "shouldBypassProxy p H"
proof -
  have "noProxy \<noteq> []"
  proof
    assume "noProxy = []"
    with assms(2) show False by (simp add: trim_def)
  qed
  moreover have "matchPatterns (toLowerCase H) (map trim (split CHR '','' noProxy))"
    using assms(2,3) by (rule matchPatterns_wildcard)
  ultimately show ?thesis using assms(1) by (simp add: shouldBypassProxy_def truthy_def)
qed

lemma shouldBypassProxy_node: "shouldBypassProxy p h \<Longrightarrow> isNodeEnvironment p"
  by (cases p) (simp_all add: shouldBypassProxy_def getEnvVar_def js_or_def truthy_def isNodeEnvironment_def)






lemma length_toLowerCase: "length (toLowerCase s) = length s"
  by (simp add: toLowerCase_def)

lemma matchPatterns_single_wildcard:
  "matchPatterns h [CHR ''*'' # suf] = endsWith h (toLowerCase suf)"
proof (cases "endsWith h (toLowerCase suf)")
  case True
  then show ?thesis
    by (simp add: toLowerCase_Cons toLowerChar_star startsWith_star substring1_def)
next
  case False
  have ne: "h \<noteq> CHR ''*'' # toLowerCase suf"
  proof
    assume "h = CHR ''*'' # toLowerCase suf"
    then have "h = [CHR ''*''] @ toLowerCase suf" by simp
    then have "endsWith h (toLowerCase suf)" by (simp only: endsWith_append)
    with False show False ..
  qed
  have nd: "\<not> endsWith h (''.'' @ CHR ''*'' # toLowerCase suf)"
  proof
    assume "endsWith h (''.'' @ CHR ''*'' # toLowerCase suf)"
    then obtain pre where "h = pre @ ''.'' @ CHR ''*'' # toLowerCase suf"
      unfolding endsWith_iff ..
    then have "h = (pre @ ''.*'') @ toLowerCase suf" by simp
    then have "endsWith h (toLowerCase suf)" by (simp only: endsWith_append)
    with False show False ..
  qed
  from False ne nd show ?thesis
    by (simp add: toLowerCase_Cons toLowerChar_star startsWith_star substring1_def)
qed

lemma shouldBypassProxy_single_wildcard:
  assumes "js_or (getEnvVar p ''NO_PROXY'') (getEnvVar p ''no_proxy'') = Some noProxy"
    and "map trim (split CHR '','' noProxy) = [CHR ''*'' # suf]"
  shows "shouldBypassProxy p H = endsWith (toLowerCase H) (toLowerCase suf)"
proof -
  have "noProxy \<noteq> []"
  proof
    assume "noProxy = []"
    with assms(2) show False by (simp add: trim_def)
  qed
  then show ?thesis
    using assms by (simp add: shouldBypassProxy_def truthy_def matchPatterns_single_wildcard del: matchPatterns.simps)
qed

lemma not_endsWith_longer: "length s < length suf \<Longrightarrow> \<not> endsWith s suf"
  by (simp add: endsWith_def)



lemmas eval_format =
  proxyConfigToUrl_def js_or_def truthy_def number_to_string_def nat_to_string.simps digit_char_def


section \<open>The bypass matcher and a wildcard pattern\<close>

text \<open>
  C1, as amended. The bypass list is the value of \<open>NO_PROXY\<close>, or of \<open>no_proxy\<close> when
  \<open>NO_PROXY\<close> is unset or empty, split at the commas and trimmed. If it holds a pattern
  \<open>*.D\<close>, then \<open>shouldBypassProxy(H)\<close> is true for every hostname \<open>H\<close> whose
  lower-cased form ends with the lower-cased \<open>.D\<close>: the suffix a host has to end with is
  the pattern without its star, the dot included, and letter case does not count. If
  \<open>*.D\<close> is the only pattern of the list, \<open>shouldBypassProxy(H)\<close> is true for exactly
  those hostnames; a hostname equal to \<open>D\<close>, in whatever letter case, is then not
  bypassed.
\<close>

theorem shouldBypassProxy_wildcard_dot:
  assumes "js_or (getEnvVar p ''NO_PROXY'') (getEnvVar p ''no_proxy'') = Some noProxy"
  shows "(''*.'' @ D \<in> set (map trim (split CHR '','' noProxy))
            \<and> endsWith (toLowerCase H) (toLowerCase (''.'' @ D))
          \<longrightarrow> shouldBypassProxy p H)
       \<and> (map trim (split CHR '','' noProxy) = [''*.'' @ D]
          \<longrightarrow> shouldBypassProxy p H = endsWith (toLowerCase H) (toLowerCase (''.'' @ D)))
       \<and> (map trim (split CHR '','' noProxy) = [''*.'' @ D] \<and> toLowerCase H = toLowerCase D
          \<longrightarrow> \<not> shouldBypassProxy p H)"
proof (intro conjI impI)
  assume "''*.'' @ D \<in> set (map trim (split CHR '','' noProxy))
            \<and> endsWith (toLowerCase H) (toLowerCase (''.'' @ D))"
  then have m: "''*.'' @ D \<in> set (map trim (split CHR '','' noProxy))"
    and e: "endsWith (toLowerCase H) (toLowerCase (''.'' @ D))"
    by (rule conjunct1, rule conjunct2)
  have "''*.'' @ D = CHR ''*'' # (''.'' @ D)" by simp
  with m have "CHR ''*'' # (''.'' @ D) \<in> set (map trim (split CHR '','' noProxy))"
    by (simp only:)
  from assms this e show "shouldBypassProxy p H"
    by (rule shouldBypassProxy_wildcard)
next
  assume "map trim (split CHR '','' noProxy) = [''*.'' @ D]"
  then have "map trim (split CHR '','' noProxy) = [CHR ''*'' # (''.'' @ D)]" by simp
  with assms show "shouldBypassProxy p H = endsWith (toLowerCase H) (toLowerCase (''.'' @ D))"
    by (rule shouldBypassProxy_single_wildcard)
next
  assume a: "map trim (split CHR '','' noProxy) = [''*.'' @ D] \<and> toLowerCase H = toLowerCase D"
  then have l: "map trim (split CHR '','' noProxy) = [CHR ''*'' # (''.'' @ D)]" by simp
  have "length (toLowerCase H) = length (toLowerCase D)" using a by simp
  then have "length (toLowerCase H) < length (toLowerCase (''.'' @ D))"
    by (simp add: length_toLowerCase)
  then have "\<not> endsWith (toLowerCase H) (toLowerCase (''.'' @ D))"
    by (rule not_endsWith_longer)
  then show "\<not> shouldBypassProxy p H"
    by (simp only: shouldBypassProxy_single_wildcard [OF assms l] not_False_eq_True)
qed

text \<open>
  A pattern and a host that differ in letter case, the list read from \<open>no_proxy\<close>; and
  the bare domain under the single pattern.
\<close>

theorem shouldBypassProxy_wildcard_dot_witness:
  "js_or (getEnvVar (Some (map_of [(''no_proxy'', ''localhost, *.Example.com'')])) ''NO_PROXY'')
         (getEnvVar (Some (map_of [(''no_proxy'', ''localhost, *.Example.com'')])) ''no_proxy'')
     = Some ''localhost, *.Example.com''
   \<and> (''*.'' @ ''Example.com'' \<in> set (map trim (split CHR '','' ''localhost, *.Example.com''))
      \<and> endsWith (toLowerCase ''API.example.COM'') (toLowerCase (''.'' @ ''Example.com'')))
   \<and> shouldBypassProxy (Some (map_of [(''no_proxy'', ''localhost, *.Example.com'')])) ''API.example.COM''
   \<and> js_or (getEnvVar (Some (map_of [(''NO_PROXY'', '' *.Example.com '')])) ''NO_PROXY'')
         (getEnvVar (Some (map_of [(''NO_PROXY'', '' *.Example.com '')])) ''no_proxy'')
     = Some '' *.Example.com ''
   \<and> (map trim (split CHR '','' '' *.Example.com '') = [''*.'' @ ''Example.com'']
      \<and> toLowerCase ''example.com'' = toLowerCase ''Example.com'')
   \<and> \<not> shouldBypassProxy (Some (map_of [(''NO_PROXY'', '' *.Example.com '')])) ''example.com''"
proof -
  let ?p = "Some (map_of [(''no_proxy'', ''localhost, *.Example.com'')])"
  let ?q = "Some (map_of [(''NO_PROXY'', '' *.Example.com '')])"
  have h1: "js_or (getEnvVar ?p ''NO_PROXY'') (getEnvVar ?p ''no_proxy'') = Some ''localhost, *.Example.com''"
    by code_simp
  have h2: "''*.'' @ ''Example.com'' \<in> set (map trim (split CHR '','' ''localhost, *.Example.com''))
      \<and> endsWith (toLowerCase ''API.example.COM'') (toLowerCase (''.'' @ ''Example.com''))"
    by code_simp
  have c1: "shouldBypassProxy ?p ''API.example.COM''"
    by (rule shouldBypassProxy_wildcard_dot [OF h1, THEN conjunct1, THEN mp, OF h2])
  have h3: "js_or (getEnvVar ?q ''NO_PROXY'') (getEnvVar ?q ''no_proxy'') = Some '' *.Example.com ''"
    by code_simp
  have h4: "map trim (split CHR '','' '' *.Example.com '') = [''*.'' @ ''Example.com'']
      \<and> toLowerCase ''example.com'' = toLowerCase ''Example.com''"
    by code_simp
  have c2: "\<not> shouldBypassProxy ?q ''example.com''"
    by (rule shouldBypassProxy_wildcard_dot [OF h3, THEN conjunct2, THEN conjunct2, THEN mp, OF h4])
  show ?thesis
    apply (rule conjI [OF h1])
    apply (rule conjI [OF h2])
    apply (rule conjI [OF c1])
    apply (rule conjI [OF h3])
    apply (rule conjI [OF h4])
    apply (rule c2)
    done
qed

text \<open>
  The claim as it was stated fails on the bare domain: with \<open>NO_PROXY=*.example.com\<close> the
  host \<open>example.com\<close> ends with \<open>example.com\<close> and is not bypassed, since it does not
  end with \<open>.example.com\<close>.
\<close>

theorem wildcard_bare_domain_counterexample:
  "js_or (getEnvVar (Some (map_of [(''NO_PROXY'', ''*.example.com'')])) ''NO_PROXY'')
         (getEnvVar (Some (map_of [(''NO_PROXY'', ''*.example.com'')])) ''no_proxy'')
     = Some ''*.example.com''
   \<and> ''*.'' @ ''example.com'' \<in> set (map trim (split CHR '','' ''*.example.com''))
   \<and> endsWith ''example.com'' ''example.com''
   \<and> \<not> shouldBypassProxy (Some (map_of [(''NO_PROXY'', ''*.example.com'')])) ''example.com''"
  by code_simp


section \<open>The environment reader\<close>

text \<open>
  C5. For every target URL that parses and whose hostname satisfies
  \<open>shouldBypassProxy\<close>, \<open>getProxyFromEnvironment\<close> returns \<open>undefined\<close>, and so does
  \<open>resolveProxyUrl\<close> without a directive, whatever the proxy variables hold: the bypass
  test comes before the lookup of the variables.
\<close>

theorem getProxyFromEnvironment_bypass_first:
  assumes "parse targetUrl = Some u"
    and "shouldBypassProxy p (url_hostname u)"
  shows "getProxyFromEnvironment parse p targetUrl = Inr None
         \<and> resolveProxyUrl parse p targetUrl Undefined = Inr None"
  using assms by (simp add: getProxyFromEnvironment_def resolveProxyUrl_def)

theorem getProxyFromEnvironment_bypass_first_witness:
  "sampleParse ''https://api.example.com''
     = Some \<lparr>url_protocol = ''https:'', url_hostname = ''api.example.com''\<rparr>
   \<and> shouldBypassProxy
         (Some (map_of [(''NO_PROXY'', ''*.example.com''), (''HTTPS_PROXY'', ''http://proxy:3128'')]))
         (url_hostname \<lparr>url_protocol = ''https:'', url_hostname = ''api.example.com''\<rparr>)
   \<and> getProxyFromEnvironment sampleParse
         (Some (map_of [(''NO_PROXY'', ''*.example.com''), (''HTTPS_PROXY'', ''http://proxy:3128'')]))
         ''https://api.example.com'' = Inr None
   \<and> resolveProxyUrl sampleParse
         (Some (map_of [(''NO_PROXY'', ''*.example.com''), (''HTTPS_PROXY'', ''http://proxy:3128'')]))
         ''https://api.example.com'' Undefined = Inr None"
proof -
  let ?p = "Some (map_of [(''NO_PROXY'', ''*.example.com''), (''HTTPS_PROXY'', ''http://proxy:3128'')])"
  let ?u = "\<lparr>url_protocol = ''https:'', url_hostname = ''api.example.com''\<rparr>"
  have h1: "sampleParse ''https://api.example.com'' = Some ?u"
    by code_simp
  have h2: "shouldBypassProxy ?p (url_hostname ?u)"
    by code_simp
  note c = getProxyFromEnvironment_bypass_first [where parse = sampleParse, OF h1 h2]
  show ?thesis
    apply (rule conjI [OF h1])
    apply (rule conjI [OF h2])
    apply (rule c)
    done
qed



text \<open>
  Where no value is non-empty the chain of \<open>||\<close> gives its last operand: an
  \<open>http_proxy\<close> set to the empty string comes back as the empty string.
\<close>

lemma getProxyFromEnvironment_empty_http_proxy:
  "getProxyFromEnvironment sampleParse (Some (map_of [(''http_proxy'', [])]))
     ''http://api.example.com'' = Inr (Some [])"
  by code_simp

text \<open>
  C7, as amended. When the target URL does not parse and the execution context has
  \<open>process.env\<close>, \<open>getProxyFromEnvironment\<close> fails with \<open>InvalidURL\<close>, and so does
  \<open>resolveProxyUrl\<close> without a directive. In a context without \<open>process.env\<close> both
  return \<open>undefined\<close> before the URL is parsed.
\<close>

theorem getProxyFromEnvironment_invalid_url:
  assumes "parse targetUrl = None"
  shows "(isNodeEnvironment p \<longrightarrow>
            getProxyFromEnvironment parse p targetUrl = Inl InvalidURL
            \<and> resolveProxyUrl parse p targetUrl Undefined = Inl InvalidURL)
         \<and> (\<not> isNodeEnvironment p \<longrightarrow>
            getProxyFromEnvironment parse p targetUrl = Inr None
            \<and> resolveProxyUrl parse p targetUrl Undefined = Inr None)"
  using assms by (simp add: getProxyFromEnvironment_def resolveProxyUrl_def)

theorem getProxyFromEnvironment_invalid_url_witness:
  "sampleParse ''not a url'' = None
   \<and> isNodeEnvironment (Some (map_of [(''HTTPS_PROXY'', ''http://proxy:3128'')]))
   \<and> getProxyFromEnvironment sampleParse (Some (map_of [(''HTTPS_PROXY'', ''http://proxy:3128'')]))
        ''not a url'' = Inl InvalidURL
   \<and> resolveProxyUrl sampleParse (Some (map_of [(''HTTPS_PROXY'', ''http://proxy:3128'')]))
        ''not a url'' Undefined = Inl InvalidURL"
proof -
  let ?p = "Some (map_of [(''HTTPS_PROXY'', ''http://proxy:3128'')])"
  have h1: "sampleParse ''not a url'' = None"
    by code_simp
  have h2: "isNodeEnvironment ?p"
    by code_simp
  note c = getProxyFromEnvironment_invalid_url [where parse = sampleParse, OF h1,
             THEN conjunct1, THEN mp, OF h2]
  show ?thesis
    apply (rule conjI [OF h1])
    apply (rule conjI [OF h2])
    apply (rule c)
    done
qed

text \<open>
  The claim as it was stated fails where there is no \<open>process.env\<close>: the unparseable
  target gives \<open>undefined\<close>, not a failure.
\<close>

theorem invalid_url_without_process_counterexample:
  "sampleParse ''not a url'' = None
   \<and> getProxyFromEnvironment sampleParse None ''not a url'' = Inr None
   \<and> resolveProxyUrl sampleParse None ''not a url'' Undefined = Inr None"
  by code_simp


section \<open>The config normaliser\<close>

text \<open>
  C8. \<open>proxyConfigToUrl\<close> only formats: for every config the result is the protocol,
  \<open>://\<close>, the credentials followed by \<open>@\<close> if there are any, the host, a colon and the
  port. The protocol is \<open>http\<close> when the field is omitted (and when it is the empty
  string); the credentials and their \<open>@\<close> appear only when the field is present (and
  not the empty string). The two configs of the specification give
  \<open>http://p:8080\<close> and \<open>https://u:x@p:8080\<close>.
\<close>

theorem proxyConfigToUrl_format:
  "proxyConfigToUrl config =
      (case protocol config of None \<Rightarrow> ''http'' | Some s \<Rightarrow> if s = [] then ''http'' else s)
      @ ''://''
      @ (case auth config of None \<Rightarrow> [] | Some a \<Rightarrow> if a = [] then [] else a @ ''@'')
      @ host config @ '':'' @ number_to_string (port config)
   \<and> proxyConfigToUrl \<lparr>host = ''p'', port = 8080, protocol = None, auth = None\<rparr> = ''http://p:8080''
   \<and> proxyConfigToUrl \<lparr>host = ''p'', port = 8080, protocol = Some ''https'', auth = Some ''u:x''\<rparr>
        = ''https://u:x@p:8080''"
proof (intro conjI)
  show "proxyConfigToUrl config =
      (case protocol config of None \<Rightarrow> ''http'' | Some s \<Rightarrow> if s = [] then ''http'' else s)
      @ ''://''
      @ (case auth config of None \<Rightarrow> [] | Some a \<Rightarrow> if a = [] then [] else a @ ''@'')
      @ host config @ '':'' @ number_to_string (port config)"
    by (cases "protocol config"; cases "auth config")
       (simp_all add: proxyConfigToUrl_def js_or_def truthy_def)
  show "proxyConfigToUrl \<lparr>host = ''p'', port = 8080, protocol = None, auth = None\<rparr> = ''http://p:8080''"
    by (simp add: eval_format)
  show "proxyConfigToUrl \<lparr>host = ''p'', port = 8080, protocol = Some ''https'', auth = Some ''u:x''\<rparr>
        = ''https://u:x@p:8080''"
    by (simp add: eval_format)
qed

text \<open>
  The source and the letter of the specification's format agree on every config in which
  neither optional field is the empty string; an empty protocol is replaced by the
  default, where the letter of the format would leave it empty.
\<close>

lemma proxyConfigToUrl_spec_wording:
  "protocol config \<noteq> Some [] \<Longrightarrow> auth config \<noteq> Some [] \<Longrightarrow>
     proxyConfigToUrl config = toURL_spec config"
  by (cases "protocol config"; cases "auth config")
     (simp_all add: proxyConfigToUrl_def toURL_spec_def js_or_def truthy_def)

lemma proxyConfigToUrl_empty_protocol:
  "proxyConfigToUrl \<lparr>host = ''p'', port = 8080, protocol = Some [], auth = None\<rparr> = ''http://p:8080''
   \<and> toURL_spec \<lparr>host = ''p'', port = 8080, protocol = Some [], auth = None\<rparr> = ''://p:8080''"
  by (simp add: toURL_spec_def eval_format)


section \<open>The priority resolver\<close>

text \<open>
  C4. For every target URL, every URL parser and every environment state,
  \<open>resolveProxyUrl(url, false)\<close> returns \<open>undefined\<close>: no proxy, whatever the proxy
  variables hold, and without an error.
\<close>

theorem resolveProxyUrl_false_none:
  "resolveProxyUrl parse p targetUrl PFalse = Inr None"
  by (simp add: resolveProxyUrl_def)

text \<open>
  C3. For every target URL and every environment state, a string directive \<open>s\<close> is
  returned as it is and an object directive \<open>c\<close> gives \<open>proxyConfigToUrl c\<close>. Neither
  the bypass list nor the proxy variables matter: the result is the same under any two
  environment states (and any two URL parsers).
\<close>

theorem resolveProxyUrl_explicit_verbatim:
  "resolveProxyUrl parse p targetUrl (PString s) = Inr (Some s)
   \<and> resolveProxyUrl parse p targetUrl (PObject c) = Inr (Some (proxyConfigToUrl c))
   \<and> resolveProxyUrl parse p targetUrl (PString s) = resolveProxyUrl parse' p' targetUrl (PString s)
   \<and> resolveProxyUrl parse p targetUrl (PObject c) = resolveProxyUrl parse' p' targetUrl (PObject c)"
  by (simp add: resolveProxyUrl_def)

text \<open>
  The case of the specification: the host is on the bypass list, and the explicit
  directive is returned all the same.
\<close>

lemma resolveProxyUrl_explicit_over_bypass:
  "shouldBypassProxy (Some (map_of [(''NO_PROXY'', ''*.example.com'')])) ''api.example.com''
   \<and> resolveProxyUrl sampleParse (Some (map_of [(''NO_PROXY'', ''*.example.com'')]))
         ''https://api.example.com'' (PString ''http://p:1'') = Inr (Some ''http://p:1'')"
  by code_simp

text \<open>
  C10. For every target URL, parseable or not, and every directive other than
  \<open>undefined\<close> (and \<open>null\<close>, which takes the same path), \<open>resolveProxyUrl\<close> returns a
  value, the same one whatever the URL parser does. A failure of \<open>resolveProxyUrl\<close> is
  an \<open>InvalidURL\<close> raised by \<open>getProxyFromEnvironment\<close> on a target that does not parse,
  with the directive absent.
\<close>

theorem resolveProxyUrl_explicit_total:
  "(opt \<noteq> Undefined \<and> opt \<noteq> Null \<longrightarrow>
      (\<exists>r. resolveProxyUrl parse p targetUrl opt = Inr r
           \<and> resolveProxyUrl parse' p targetUrl opt = Inr r))
   \<and> (resolveProxyUrl parse p targetUrl opt = Inl e \<longrightarrow>
        (opt = Undefined \<or> opt = Null) \<and> e = InvalidURL \<and> parse targetUrl = None
        \<and> getProxyFromEnvironment parse p targetUrl = Inl e)"
  by (cases opt)
     (auto simp: resolveProxyUrl_def getProxyFromEnvironment_def Let_def
           split: if_splits option.splits)

theorem resolveProxyUrl_explicit_total_witness:
  "sampleParse ''not a url'' = None
   \<and> (PObject \<lparr>host = ''p'', port = 8080, protocol = None, auth = None\<rparr> \<noteq> Undefined
      \<and> PObject \<lparr>host = ''p'', port = 8080, protocol = None, auth = None\<rparr> \<noteq> Null)
   \<and> (\<exists>r. resolveProxyUrl sampleParse (Some (map_of [(''HTTPS_PROXY'', ''http://proxy:3128'')]))
              ''not a url'' (PObject \<lparr>host = ''p'', port = 8080, protocol = None, auth = None\<rparr>) = Inr r
          \<and> resolveProxyUrl sampleParse (Some (map_of [(''HTTPS_PROXY'', ''http://proxy:3128'')]))
              ''not a url'' (PObject \<lparr>host = ''p'', port = 8080, protocol = None, auth = None\<rparr>) = Inr r)
   \<and> resolveProxyUrl sampleParse (Some (map_of [(''HTTPS_PROXY'', ''http://proxy:3128'')]))
        ''not a url'' (PObject \<lparr>host = ''p'', port = 8080, protocol = None, auth = None\<rparr>)
        = Inr (Some ''http://p:8080'')
   \<and> resolveProxyUrl sampleParse (Some (map_of [(''HTTPS_PROXY'', ''http://proxy:3128'')]))
        ''not a url'' Undefined = Inl InvalidURL
   \<and> (Undefined = Undefined \<or> Undefined = Null)"
proof -
  let ?p = "Some (map_of [(''HTTPS_PROXY'', ''http://proxy:3128'')])"
  let ?c = "\<lparr>host = ''p'', port = 8080, protocol = None, auth = None\<rparr>"
  have h0: "sampleParse ''not a url'' = None" by code_simp
  have h1: "PObject ?c \<noteq> Undefined \<and> PObject ?c \<noteq> Null" by simp
  have e1: "\<exists>r. resolveProxyUrl sampleParse ?p ''not a url'' (PObject ?c) = Inr r
          \<and> resolveProxyUrl sampleParse ?p ''not a url'' (PObject ?c) = Inr r"
    by (rule resolveProxyUrl_explicit_total [THEN conjunct1, THEN mp, OF h1])
  have v3: "resolveProxyUrl sampleParse ?p ''not a url'' (PObject ?c) = Inr (Some ''http://p:8080'')"
    by (simp add: resolveProxyUrl_def eval_format)
  have v4: "resolveProxyUrl sampleParse ?p ''not a url'' Undefined = Inl InvalidURL" by code_simp
  have e4: "Undefined = Undefined \<or> Undefined = Null"
    using resolveProxyUrl_explicit_total [THEN conjunct2, THEN mp, OF v4] by (rule conjunct1)
  show ?thesis
    apply (rule conjI [OF h0])
    apply (rule conjI [OF h1])
    apply (rule conjI [OF e1])
    apply (rule conjI [OF v3])
    apply (rule conjI [OF v4])
    apply (rule e4)
    done
qed


section \<open>The agent factory and its failures\<close>

text \<open>
  C2. The claim is that a failure of the constructor, after a successful load, reaches
  the caller as \<open>InvalidProxyURL\<close>. The source does otherwise: the constructor is called
  inside the \<open>try\<close> block of the import. In a context with \<open>process.env\<close>, with the
  module loaded and a constructor that rejects the proxy URL \<open>not a url\<close>, the factory
  returns \<open>undefined\<close>, raises nothing, and writes the warning that names a missing
  library.
\<close>

theorem createProxyAgent_swallows_construction_failure:
  "isNodeEnvironment (Some (map_of []))
   \<and> sampleProxyAgent ''not a url'' = Inl InvalidProxyURL
   \<and> createProxyAgent (Some (map_of [])) (Inr sampleProxyAgent) ''not a url'' []
       = (Inr None, [(''undici not available. Proxy support is disabled.'', InvalidProxyURL)])
   \<and> fst (createProxyAgent (Some (map_of [])) (Inr sampleProxyAgent) ''not a url'' [])
       \<noteq> Inl InvalidProxyURL"
  by code_simp

text \<open>
  The same holds for every constructor and every URL it rejects: what the handler
  catches is not told apart.
\<close>

lemma createProxyAgent_handler_catches_constructor:
  assumes "isNodeEnvironment p"
    and "imported = Inr ProxyAgent"
    and "ProxyAgent proxyUrl = Inl e"
  shows "createProxyAgent p imported proxyUrl out
           = (Inr None, out @ [(''undici not available. Proxy support is disabled.'', e)])"
  using assms by (simp add: createProxyAgent_def tryBody_def)

text \<open>
  C9. For every proxy URL, valid ones among them, \<open>createProxyAgent\<close> returns
  \<open>undefined\<close> and raises nothing in the two situations without the capability: in an
  execution context without \<open>process.env\<close> it returns at entry, the console untouched;
  when the deferred load fails it writes one warning, with the caught value, and returns
  \<open>undefined\<close>.
\<close>

theorem createProxyAgent_unavailable_none:
  "(\<not> isNodeEnvironment p \<longrightarrow>
      createProxyAgent p imported proxyUrl out = (Inr None, out))
   \<and> (isNodeEnvironment p \<and> imported = Inl e \<longrightarrow>
      createProxyAgent p imported proxyUrl out
        = (Inr None, out @ [(''undici not available. Proxy support is disabled.'', e)]))"
  by (simp add: createProxyAgent_def tryBody_def)

theorem createProxyAgent_unavailable_none_witness:
  "\<not> isNodeEnvironment None
   \<and> createProxyAgent None (Inr sampleProxyAgent) ''http://proxy:3128'' [] = (Inr None, [])
   \<and> (isNodeEnvironment (Some (map_of []))
      \<and> (Inl CapabilityUnavailable :: error + string constructor) = Inl CapabilityUnavailable)
   \<and> createProxyAgent (Some (map_of [])) (Inl CapabilityUnavailable :: error + string constructor)
        ''http://proxy:3128'' []
        = (Inr None, [] @ [(''undici not available. Proxy support is disabled.'', CapabilityUnavailable)])"
proof -
  have h1: "\<not> isNodeEnvironment None"
    by (simp add: isNodeEnvironment_def)
  have c1: "createProxyAgent None (Inr sampleProxyAgent) ''http://proxy:3128'' [] = (Inr None, [])"
    by (rule createProxyAgent_unavailable_none [THEN conjunct1, THEN mp, OF h1])
  have h2: "isNodeEnvironment (Some (map_of []))
      \<and> (Inl CapabilityUnavailable :: error + string constructor) = Inl CapabilityUnavailable"
    by (simp add: isNodeEnvironment_def)
  have c2: "createProxyAgent (Some (map_of [])) (Inl CapabilityUnavailable :: error + string constructor)
        ''http://proxy:3128'' []
        = (Inr None, [] @ [(''undici not available. Proxy support is disabled.'', CapabilityUnavailable)])"
    by (rule createProxyAgent_unavailable_none [THEN conjunct2, THEN mp, OF h2])
  show ?thesis
    apply (rule conjI [OF h1])
    apply (rule conjI [OF c1])
    apply (rule conjI [OF h2])
    apply (rule c2)
    done
qed

text \<open>
  With the capability there and a URL the constructor accepts, the factory gives the
  agent and writes nothing.
\<close>

lemma createProxyAgent_success:
  "createProxyAgent (Some (map_of [])) (Inr sampleProxyAgent) ''http://proxy:3128'' []
     = (Inr (Some ''http://proxy:3128''), [])"
  by code_simp


end
